theory Spec2Isabelle
  imports Main
begin

section \<open>Data model of \<open>account_ids.py\<close>\<close>

text \<open>
  An account as returned by the organizations API is a Python dict; the program only ever
  reads its \<open>"Name"\<close> and \<open>"Id"\<close> entries, both strings.
\<close>

record account =
  acct_Name :: string
  acct_Id :: string

text \<open>
  A Python \<open>dict\<close> keeps its keys unique and iterates in insertion order. It is modelled
  as an association list in insertion order; a well-formed dict has distinct keys
  (\<open>distinct (map fst d)\<close>). \<open>d[k] = v\<close> overwrites the value in place when the key is
  present and appends the pair otherwise; \<open>d.get(k)\<close> is \<open>map_of d k\<close>.
\<close>

type_synonym ('k, 'v) dict = "('k \<times> 'v) list"

fun dict_set :: "('k, 'v) dict \<Rightarrow> 'k \<Rightarrow> 'v \<Rightarrow> ('k, 'v) dict" where
  "dict_set [] k v = [(k, v)]"
| "dict_set ((k', v') # d) k v =
     (if k' = k then (k', v) # d else (k', v') # dict_set d k v)"

text \<open>The organisation tree: OU path to the accounts directly inside that OU.\<close>

type_synonym orgtree = "(string, account list) dict"

section \<open>AccountResolver\<close>

subsection \<open>\<open>filter_excluded_accounts\<close>\<close>

text \<open>
  \<^verbatim>\<open>
  for ou, account in org_account_list.items():
      org_account_list[ou] = [
          acc for acc in account if not (
                  ou in excluded_accounts or acc.get("Name") in excluded_accounts)]
  return org_account_list
  \<close>
  The loop walks the items of the dict and stores the filtered list back under the same
  key of the same dict. Every key is visited once and only its own entry is written at
  that visit, so the pairs the loop sees are those of the dict at entry.
\<close>

fun filter_excluded_loop ::
  "(string \<times> account list) list \<Rightarrow> string list \<Rightarrow> orgtree \<Rightarrow> orgtree" where
  "filter_excluded_loop [] excluded_accounts org_account_list = org_account_list"
| "filter_excluded_loop ((ou, account) # items) excluded_accounts org_account_list =
     filter_excluded_loop items excluded_accounts
       (dict_set org_account_list ou
          (filter (\<lambda>acc. \<not> (ou \<in> set excluded_accounts
                          \<or> acct_Name acc \<in> set excluded_accounts)) account))"

definition filter_excluded_accounts :: "orgtree \<Rightarrow> string list \<Rightarrow> orgtree" where
  "filter_excluded_accounts org_account_list excluded_accounts =
     filter_excluded_loop org_account_list excluded_accounts org_account_list"

subsection \<open>Python exceptions\<close>

text \<open>
  The exceptions the modelled functions can raise. All three are Python \<open>TypeError\<close>s:
  iterating \<open>None\<close> (the result of \<open>dict.get\<close> on a missing key), \<open>str.join\<close> over a
  sequence holding a non-string, and the explicit \<open>raise TypeError("Unsupported type ...")\<close>
  of \<open>format_value\<close>.
\<close>

datatype py_error = TypeError_NoneNotIterable | TypeError_JoinNonStr | TypeError_Unsupported

subsection \<open>\<open>account_ids_from_ou\<close>\<close>

text \<open>
  \<^verbatim>\<open>
  accounts = {}
  for ou in ou_target_accounts:
      for account_data in ou_with_all_accounts.get(ou):
          accounts[account_data.get("Name")] = account_data.get("Id")
  return accounts
  \<close>
  \<open>dict.get\<close> of a missing key is \<open>None\<close>, and \<open>for ... in None\<close> raises \<open>TypeError\<close>.
\<close>

fun ou_accounts_loop :: "account list \<Rightarrow> (string, string) dict \<Rightarrow> (string, string) dict" where
  "ou_accounts_loop [] accounts = accounts"
| "ou_accounts_loop (account_data # rest) accounts =
     ou_accounts_loop rest (dict_set accounts (acct_Name account_data) (acct_Id account_data))"

fun account_ids_from_ou_loop ::
  "string list \<Rightarrow> orgtree \<Rightarrow> (string, string) dict \<Rightarrow> py_error + (string, string) dict" where
  "account_ids_from_ou_loop [] ou_with_all_accounts accounts = Inr accounts"
| "account_ids_from_ou_loop (ou # rest) ou_with_all_accounts accounts =
     (case map_of ou_with_all_accounts ou of
        None \<Rightarrow> Inl TypeError_NoneNotIterable
      | Some account_list \<Rightarrow>
          account_ids_from_ou_loop rest ou_with_all_accounts
            (ou_accounts_loop account_list accounts))"

definition account_ids_from_ou ::
  "string list \<Rightarrow> orgtree \<Rightarrow> py_error + (string, string) dict" where
  "account_ids_from_ou ou_target_accounts ou_with_all_accounts =
     account_ids_from_ou_loop ou_target_accounts ou_with_all_accounts []"

subsection \<open>\<open>account_ids_from_name\<close>\<close>

text \<open>
  \<^verbatim>\<open>
  deployment_accounts = {}
  for ou in ou_org_accounts:
      for account in ou_org_accounts[ou]:
          account_name = account.get("Name")
          if account_name in deployment_target_accounts:
              deployment_target_accounts.remove(account_name)
              deployment_accounts[account_name] = account.get("Id")
  return deployment_accounts
  \<close>
  The function mutates the list it is given: \<open>list.remove\<close> deletes the first occurrence
  of the name (\<open>remove1\<close>). The state of the loops is the pair of the remaining requested
  names and the result built so far.
\<close>

fun from_name_accounts_loop ::
  "account list \<Rightarrow> string list \<times> (string, string) dict \<Rightarrow> string list \<times> (string, string) dict" where
  "from_name_accounts_loop [] st = st"
| "from_name_accounts_loop (account # rest) (deployment_target_accounts, deployment_accounts) =
     (if acct_Name account \<in> set deployment_target_accounts
      then from_name_accounts_loop rest
             (remove1 (acct_Name account) deployment_target_accounts,
              dict_set deployment_accounts (acct_Name account) (acct_Id account))
      else from_name_accounts_loop rest (deployment_target_accounts, deployment_accounts))"

fun from_name_ous_loop ::
  "(string \<times> account list) list \<Rightarrow> string list \<times> (string, string) dict
     \<Rightarrow> string list \<times> (string, string) dict" where
  "from_name_ous_loop [] st = st"
| "from_name_ous_loop ((ou, account_list) # items) st =
     from_name_ous_loop items (from_name_accounts_loop account_list st)"

text \<open>The remaining requested names together with the returned dict.\<close>

definition account_ids_from_name_run ::
  "string list \<Rightarrow> orgtree \<Rightarrow> string list \<times> (string, string) dict" where
  "account_ids_from_name_run deployment_target_accounts ou_org_accounts =
     from_name_ous_loop ou_org_accounts (deployment_target_accounts, [])"

definition account_ids_from_name :: "string list \<Rightarrow> orgtree \<Rightarrow> (string, string) dict" where
  "account_ids_from_name deployment_target_accounts ou_org_accounts =
     snd (account_ids_from_name_run deployment_target_accounts ou_org_accounts)"

text \<open>All accounts of the tree in traversal order, and the name/id pair of an account.\<close>

definition tree_accounts :: "orgtree \<Rightarrow> account list" where
  "tree_accounts t = concat (map snd t)"

definition name_id :: "account \<Rightarrow> string \<times> string" where
  "name_id a = (acct_Name a, acct_Id a)"

section \<open>Text helpers\<close>

definition dq :: string where "dq = [CHR 0x22]"

definition nl :: string where "nl = [CHR 0x0A]"

text \<open>\<open>sep.join(xs)\<close> on strings.\<close>

fun join :: "string \<Rightarrow> string list \<Rightarrow> string" where
  "join sep [] = []"
| "join sep [x] = x"
| "join sep (x # y # ys) = x @ sep @ join sep (y # ys)"

text \<open>
  \<open>str.lower()\<close> on ASCII text (the artifacts are written with \<open>encoding='us-ascii'\<close>):
  the letters \<open>A\<close> to \<open>Z\<close> go to \<open>a\<close> to \<open>z\<close>, every other character stays.
\<close>

definition lower_char :: "char \<Rightarrow> char" where
  "lower_char c =
     (case map_of (zip ''ABCDEFGHIJKLMNOPQRSTUVWXYZ'' ''abcdefghijklmnopqrstuvwxyz'') c of
        None \<Rightarrow> c | Some l \<Rightarrow> l)"

definition lower :: "string \<Rightarrow> string" where
  "lower s = map lower_char s"

text \<open>\<open>str(i)\<close> for a Python int: decimal digits, a leading minus sign when negative.\<close>

fun str_nat :: "nat \<Rightarrow> string" where
  "str_nat n =
     (if n < 10 then [''0123456789'' ! n]
      else str_nat (n div 10) @ [''0123456789'' ! (n mod 10)])"

declare str_nat.simps [simp del]

definition str_int :: "int \<Rightarrow> string" where
  "str_int i = (if i < 0 then ''-'' @ str_nat (nat (- i)) else str_nat (nat i))"

text \<open>The number of positions of \<open>s\<close> at which \<open>pat\<close> starts.\<close>

fun occurrences :: "string \<Rightarrow> string \<Rightarrow> nat" where
  "occurrences pat [] = (if pat = [] then 1 else 0)"
| "occurrences pat (c # cs) =
     (if take (length pat) (c # cs) = pat then 1 else 0) + occurrences pat cs"

section \<open>ValueFormatter: \<open>format_value\<close>\<close>

text \<open>
  The values a YAML variable can hold: the five kinds the formatter handles, and
  \<open>VOther\<close> for everything else (\<open>None\<close>, a float, ...), on which it raises.
\<close>

datatype tf_value =
    VStr string
  | VBool bool
  | VInt int
  | VList "tf_value list"
  | VDict "(string \<times> tf_value) list"
  | VOther

text \<open>
  \<open>format_value\<close> returns a \<open>str\<close> in every branch but the integer one, which returns
  the \<open>int\<close> itself (\<open>return value\<close>). An f-string renders either (\<open>fstr\<close>);
  \<open>str.join\<close> accepts only strings.
\<close>

datatype rendered = RStr string | RInt int

fun fstr :: "rendered \<Rightarrow> string" where
  "fstr (RStr s) = s"
| "fstr (RInt i) = str_int i"

fun is_RStr :: "rendered \<Rightarrow> bool" where
  "is_RStr (RStr _) = True"
| "is_RStr (RInt _) = False"

fun is_container :: "tf_value \<Rightarrow> bool" where
  "is_container (VList _) = True"
| "is_container (VDict _) = True"
| "is_container _ = False"

text \<open>The results of a generator, up to the first exception.\<close>

fun sequence :: "('e + 'a) list \<Rightarrow> 'e + 'a list" where
  "sequence [] = Inr []"
| "sequence (Inl e # rs) = Inl e"
| "sequence (Inr a # rs) = (case sequence rs of Inl e \<Rightarrow> Inl e | Inr as \<Rightarrow> Inr (a # as))"

definition indent_space :: "nat \<Rightarrow> string" where
  "indent_space indent = concat (replicate indent ''  '')"

text \<open>
  \<^verbatim>\<open>
  if isinstance(value, str):
      if value.startswith("module."): return value
      return f"\"{value}\""
  elif isinstance(value, bool): return str(value).lower()
  elif isinstance(value, int): return value
  elif isinstance(value, list):
      if all(not isinstance(v, (dict, list)) for v in value):
          indent += 1
          inner = ", ".join(format_value(v, indent) for v in value)
          return f"[{inner}]"
      else:
          indent += 1; indent_space = '  ' * indent
          inner = ",\n".join(f"{indent_space}  {format_value(v, indent)}" for v in value)
          return f"[\n{inner}\n{indent_space}]"
  elif isinstance(value, dict):
      indent += 1; indent_space = '  ' * indent
      inner = "\n".join(f"{indent_space}  {k} = {format_value(v, indent)}" for k, v in value.items())
      return f"{{\n{inner}\n{indent_space}}}"
  else:
      raise TypeError(...)
  \<close>
  \<open>join\<close> first collects the whole generator, so an exception of a recursive call comes
  before the complaint of \<open>join\<close> about a non-string element.
\<close>

fun format_value :: "tf_value \<Rightarrow> nat \<Rightarrow> py_error + rendered" where
  "format_value (VStr v) indent =
     (if take 7 v = ''module.'' then Inr (RStr v) else Inr (RStr (dq @ v @ dq)))"
| "format_value (VBool b) indent = Inr (RStr (if b then ''true'' else ''false''))"
| "format_value (VInt i) indent = Inr (RInt i)"
| "format_value (VList vs) indent =
     (if list_all (\<lambda>v. \<not> is_container v) vs then
        (case sequence (map (\<lambda>v. format_value v (indent + 1)) vs) of
           Inl e \<Rightarrow> Inl e
         | Inr rs \<Rightarrow>
             if list_all is_RStr rs
             then Inr (RStr (''['' @ join '', '' (map fstr rs) @ '']''))
             else Inl TypeError_JoinNonStr)
      else
        (case sequence (map (\<lambda>v. format_value v (indent + 1)) vs) of
           Inl e \<Rightarrow> Inl e
         | Inr rs \<Rightarrow>
             Inr (RStr (''['' @ nl
               @ join ('','' @ nl) (map (\<lambda>r. indent_space (indent + 1) @ ''  '' @ fstr r) rs)
               @ nl @ indent_space (indent + 1) @ '']''))))"
| "format_value (VDict kvs) indent =
     (case sequence (map (\<lambda>kv. format_value (snd kv) (indent + 1)) kvs) of
        Inl e \<Rightarrow> Inl e
      | Inr rs \<Rightarrow>
          Inr (RStr (''{'' @ nl
            @ join nl (map (\<lambda>(k, r). indent_space (indent + 1) @ ''  '' @ k @ '' = '' @ fstr r)
                          (zip (map fst kvs) rs))
            @ nl @ indent_space (indent + 1) @ ''}'')))"
| "format_value VOther indent = Inl TypeError_Unsupported"

section \<open>The file sink\<close>

text \<open>
  \<open>write_to_file(content, output_file)\<close> hands the text to the file system. The sink is
  modelled as the list of the writes it has received, oldest first.
\<close>

type_synonym file_sink = "(string \<times> string) list"

definition write_to_file :: "string \<Rightarrow> string \<Rightarrow> file_sink \<Rightarrow> file_sink" where
  "write_to_file content output_file fs = fs @ [(output_file, content)]"

section \<open>TerraformCodeGenerator\<close>

subsection \<open>\<open>create_provider_code\<close>\<close>

text \<open>
  \<^verbatim>\<open>
  provider_code_string_builder = ""
  for region in regions:
      for account_name, account_id in account_ids_by_name.items():
          if account_name == "Management":
              provider_code_string_builder += "provider \"aws\" {\n"
              provider_code_string_builder += f"  region = \"{region}\"\n"
              provider_code_string_builder += "}\n"
              provider_code_string_builder += "\n"
              continue
          account_name = account_name.lower()
          provider_code_string_builder += "provider \"aws\" {\n"
          provider_code_string_builder += "  assume_role {\n"
          provider_code_string_builder += f"    role_arn = \"arn:aws:iam::{account_id}:role/OrganizationAccountAccessRole\"\n"
          provider_code_string_builder += "  }\n"
          provider_code_string_builder += f"  alias  = \"{region}-{account_name}\"\n"
          provider_code_string_builder += f"  region = \"{region}\"\n"
          provider_code_string_builder += "}\n"
          provider_code_string_builder += "\n"
  write_to_file(content=provider_code_string_builder, output_file="terraform/provider.tf")
  return provider_code_string_builder
  \<close>
\<close>

fun provider_accounts_loop :: "string \<Rightarrow> (string \<times> string) list \<Rightarrow> string \<Rightarrow> string" where
  "provider_accounts_loop region [] builder = builder"
| "provider_accounts_loop region ((account_name, account_id) # rest) builder =
     (if account_name = ''Management'' then
        provider_accounts_loop region rest
          (builder @ ''provider '' @ dq @ ''aws'' @ dq @ '' {'' @ nl
             @ ''  region = '' @ dq @ region @ dq @ nl
             @ ''}'' @ nl
             @ nl)
      else
        provider_accounts_loop region rest
          (builder @ ''provider '' @ dq @ ''aws'' @ dq @ '' {'' @ nl
             @ ''  assume_role {'' @ nl
             @ ''    role_arn = '' @ dq @ ''arn:aws:iam::'' @ account_id
                 @ '':role/OrganizationAccountAccessRole'' @ dq @ nl
             @ ''  }'' @ nl
             @ ''  alias  = '' @ dq @ region @ ''-'' @ lower account_name @ dq @ nl
             @ ''  region = '' @ dq @ region @ dq @ nl
             @ ''}'' @ nl
             @ nl))"

fun provider_regions_loop :: "string list \<Rightarrow> (string \<times> string) list \<Rightarrow> string \<Rightarrow> string" where
  "provider_regions_loop [] account_ids_by_name builder = builder"
| "provider_regions_loop (region # rest) account_ids_by_name builder =
     provider_regions_loop rest account_ids_by_name
       (provider_accounts_loop region account_ids_by_name builder)"

definition create_provider_code ::
  "string list \<Rightarrow> (string, string) dict \<Rightarrow> file_sink \<Rightarrow> string \<times> file_sink" where
  "create_provider_code regions account_ids_by_name fs =
     (let provider_code_string_builder = provider_regions_loop regions account_ids_by_name []
      in (provider_code_string_builder,
          write_to_file provider_code_string_builder ''terraform/provider.tf'' fs))"

subsection \<open>\<open>create_module_code\<close>\<close>

text \<open>
  \<^verbatim>\<open>
  module_code = ""
  for region in regions:
      for account_name, account_id in deployment_account_ids.items():
          account_name = account_name.lower()
          module_code += f"module \"{module_name}-{region}-{account_name}\" {{\n"
          module_code += f"  source = \"{module_source}\"\n"
          if variables:
              for var in variables:
                  name = var.get("name"); value = var.get("value")
                  formatted_value = format_value(value)
                  module_code += f"  {name} = {formatted_value}\n"
          if account_name != "management":
              module_code += f"  providers = {{\n    aws = aws.{region}-{account_name}\n    }}\n"
          dependencies = module_dependencies
          if dependencies:
              module_code += "  depends_on = [ "
              for dependent in dependencies:
                  module_code += f"module.{dependent}-{region}, "
              module_code = module_code[:-2] + " ]\n"
          module_code += "}\n"
          module_code += "\n"
  write_to_file(content=module_code, output_file=f"terraform/{module_name}.tf")
  return module_code
  \<close>
  An exception of \<open>format_value\<close> is not caught here: it leaves the function before the
  write. A variable is the pair of its \<open>name\<close> and \<open>value\<close> entries.
\<close>

fun module_variables_loop :: "(string \<times> tf_value) list \<Rightarrow> string \<Rightarrow> py_error + string" where
  "module_variables_loop [] module_code = Inr module_code"
| "module_variables_loop ((name, val) # rest) module_code =
     (case format_value val 0 of
        Inl e \<Rightarrow> Inl e
      | Inr formatted_value \<Rightarrow>
          module_variables_loop rest
            (module_code @ ''  '' @ name @ '' = '' @ fstr formatted_value @ nl))"

fun module_depends_loop :: "string list \<Rightarrow> string \<Rightarrow> string \<Rightarrow> string" where
  "module_depends_loop [] region module_code = module_code"
| "module_depends_loop (dependent # rest) region module_code =
     module_depends_loop rest region
       (module_code @ ''module.'' @ dependent @ ''-'' @ region @ '', '')"

fun module_accounts_loop ::
  "string \<Rightarrow> string \<Rightarrow> (string \<times> tf_value) list \<Rightarrow> string list \<Rightarrow> string
     \<Rightarrow> (string \<times> string) list \<Rightarrow> string \<Rightarrow> py_error + string" where
  "module_accounts_loop module_name module_source variables module_dependencies region []
     module_code = Inr module_code"
| "module_accounts_loop module_name module_source variables module_dependencies region
     ((account_name0, account_id) # rest) module_code =
     (let account_name = lower account_name0;
          code1 = module_code @ ''module '' @ dq @ module_name @ ''-'' @ region @ ''-''
                    @ account_name @ dq @ '' {'' @ nl
                    @ ''  source = '' @ dq @ module_source @ dq @ nl
      in case (if variables \<noteq> [] then module_variables_loop variables code1 else Inr code1) of
           Inl e \<Rightarrow> Inl e
         | Inr code2 \<Rightarrow>
             (let code3 =
                    (if account_name \<noteq> ''management''
                     then code2 @ ''  providers = {'' @ nl
                            @ ''    aws = aws.'' @ region @ ''-'' @ account_name @ nl
                            @ ''    }'' @ nl
                     else code2);
                  code4 =
                    (if module_dependencies \<noteq> []
                     then (let listed = module_depends_loop module_dependencies region
                                          (code3 @ ''  depends_on = [ '')
                           in take (length listed - 2) listed @ '' ]'' @ nl)
                     else code3)
              in module_accounts_loop module_name module_source variables module_dependencies
                   region rest (code4 @ ''}'' @ nl @ nl)))"

fun module_regions_loop ::
  "string \<Rightarrow> string \<Rightarrow> (string \<times> tf_value) list \<Rightarrow> string list \<Rightarrow> string list
     \<Rightarrow> (string \<times> string) list \<Rightarrow> string \<Rightarrow> py_error + string" where
  "module_regions_loop module_name module_source variables module_dependencies []
     deployment_account_ids module_code = Inr module_code"
| "module_regions_loop module_name module_source variables module_dependencies (region # rest)
     deployment_account_ids module_code =
     (case module_accounts_loop module_name module_source variables module_dependencies region
             deployment_account_ids module_code of
        Inl e \<Rightarrow> Inl e
      | Inr module_code' \<Rightarrow>
          module_regions_loop module_name module_source variables module_dependencies rest
            deployment_account_ids module_code')"

definition create_module_code ::
  "string \<Rightarrow> string \<Rightarrow> (string, string) dict \<Rightarrow> string list \<Rightarrow> (string \<times> tf_value) list
     \<Rightarrow> string list \<Rightarrow> file_sink \<Rightarrow> py_error + string \<times> file_sink" where
  "create_module_code module_name module_source deployment_account_ids regions variables
     module_dependencies fs =
     (case module_regions_loop module_name module_source variables module_dependencies regions
             deployment_account_ids [] of
        Inl e \<Rightarrow> Inl e
      | Inr module_code \<Rightarrow>
          Inr (module_code,
               write_to_file module_code (''terraform/'' @ module_name @ ''.tf'') fs))"

section \<open>DeploymentPlanner: \<open>deploy_targets\<close>\<close>

text \<open>
  One entry of \<open>terraformModules\<close> of the YAML file. \<open>deploymentTargets\<close> is a dict in file
  order whose keys of interest are \<open>organizationalUnits\<close>, \<open>accounts\<close> and
  \<open>excludedAccounts\<close>, each holding a list of strings. A missing \<open>variables\<close> or
  \<open>dependsOn\<close> entry and an empty one take the same branches (\<open>if variables:\<close>,
  \<open>if dependencies:\<close>), so both are the empty list here.
\<close>

record tf_module =
  mod_name :: string
  mod_source :: string
  mod_regions :: "string list"
  mod_variables :: "(string \<times> tf_value) list"
  mod_dependsOn :: "string list"
  mod_deploymentTargets :: "(string, string list) dict"

text \<open>
  What a run can change: the dict \<open>ou_with_all_accounts\<close> built at the start of
  \<open>deploy_targets\<close> (\<open>shared_tree\<close>), the module-level set \<open>ALL_REGIONS\<close>, and the file
  sink. \<open>ALL_REGIONS\<close> is a Python \<open>set\<close>; it is kept as a duplicate-free list in the
  order of first insertion, which fixes one of the iteration orders Python may use.
\<close>

record run_state =
  shared_tree :: orgtree
  ALL_REGIONS :: "string list"
  written :: file_sink

text \<open>
  How a module pass ends: it reaches the end of the loop body, it leaves \<open>deploy_targets\<close>
  through \<open>return logger.exception(...)\<close>, or an exception escapes.
\<close>

datatype outcome = Completed | Returned | Raised py_error

definition add_region :: "string \<Rightarrow> string list \<Rightarrow> string list" where
  "add_region region regions = (if region \<in> set regions then regions else regions @ [region])"

text \<open>\<open>d.update(other)\<close>.\<close>

fun dict_update :: "('k, 'v) dict \<Rightarrow> ('k, 'v) dict \<Rightarrow> ('k, 'v) dict" where
  "dict_update d [] = d"
| "dict_update d ((k, v) # other) = dict_update (dict_set d k v) other"

text \<open>
  Lines 407 to 410: the name to id mapping of every account of the tree as built.
\<close>

fun account_ids_by_name_loop :: "(string \<times> account list) list \<Rightarrow> (string, string) dict
     \<Rightarrow> (string, string) dict" where
  "account_ids_by_name_loop [] account_ids_by_name = account_ids_by_name"
| "account_ids_by_name_loop ((key, accs) # items) account_ids_by_name =
     account_ids_by_name_loop items (ou_accounts_loop accs account_ids_by_name)"

text \<open>
  \<^verbatim>\<open>
  for target in deployment_target:
      match target:
          case "organizationalUnits":
              ou_target_accounts = deployment_target.get("organizationalUnits")
              if ou_target_accounts:
                  try:
                      deployment_target_accounts.update(account_ids_from_ou(
                          ou_target_accounts=ou_target_accounts,
                          ou_with_all_accounts=all_org_accounts_copy))
                  except Exception as e:
                      return logger.exception(...)
          case "accounts":
              account_targets = deployment_target.get("accounts")
              if account_targets:
                  deployment_target_accounts.update(account_ids_from_name(
                      deployment_target_accounts=account_targets,
                      ou_org_accounts=all_org_accounts_copy))
  \<close>
  \<open>Inl\<close> is the early \<open>return\<close>.
\<close>

fun resolve_targets_loop ::
  "(string \<times> string list) list \<Rightarrow> orgtree \<Rightarrow> (string, string) dict
     \<Rightarrow> py_error + (string, string) dict" where
  "resolve_targets_loop [] all_org_accounts_copy deployment_target_accounts =
     Inr deployment_target_accounts"
| "resolve_targets_loop ((target, names) # rest) all_org_accounts_copy
     deployment_target_accounts =
     (if target = ''organizationalUnits'' then
        (if names \<noteq> [] then
           (case account_ids_from_ou names all_org_accounts_copy of
              Inl e \<Rightarrow> Inl e
            | Inr found \<Rightarrow>
                resolve_targets_loop rest all_org_accounts_copy
                  (dict_update deployment_target_accounts found))
         else resolve_targets_loop rest all_org_accounts_copy deployment_target_accounts)
      else if target = ''accounts'' then
        (if names \<noteq> [] then
           resolve_targets_loop rest all_org_accounts_copy
             (dict_update deployment_target_accounts
                (account_ids_from_name names all_org_accounts_copy))
         else resolve_targets_loop rest all_org_accounts_copy deployment_target_accounts)
      else resolve_targets_loop rest all_org_accounts_copy deployment_target_accounts)"

text \<open>
  The exclusion step of a module pass (lines 427 to 446):
  \<^verbatim>\<open>
  all_org_accounts_copy = copy.deepcopy(ou_with_all_accounts)
  if "excludedAccounts" in deployment_target:
      excluded_accounts = deployment_target.get("excludedAccounts", [])
      if excluded_accounts:
          all_org_accounts_copy = filter_excluded_accounts(
              org_account_list=ou_with_all_accounts,
              excluded_accounts=excluded_accounts)
  \<close>
  The filter is called on \<open>ou_with_all_accounts\<close>, not on the copy. It rewrites the
  entries of the dict it is given and returns that same dict, so after the call the shared
  tree holds the filtered lists and \<open>all_org_accounts_copy\<close> names the shared tree.
  The result is the new shared tree and the tree the pass resolves its targets on.
\<close>

definition exclude_step :: "(string, string list) dict \<Rightarrow> orgtree \<Rightarrow> orgtree \<times> orgtree" where
  "exclude_step deployment_target ou_with_all_accounts =
     (let all_org_accounts_copy = ou_with_all_accounts
      in case map_of deployment_target ''excludedAccounts'' of
           None \<Rightarrow> (ou_with_all_accounts, all_org_accounts_copy)
         | Some excluded_accounts \<Rightarrow>
             if excluded_accounts \<noteq> [] then
               (let filtered = filter_excluded_accounts ou_with_all_accounts excluded_accounts
                in (filtered, filtered))
             else (ou_with_all_accounts, all_org_accounts_copy))"

text \<open>The body of \<open>for tf_module in tf_modules\<close>.\<close>

definition module_pass ::
  "string list \<Rightarrow> (string, string) dict \<Rightarrow> tf_module \<Rightarrow> run_state \<Rightarrow> outcome \<times> run_state" where
  "module_pass all_modules account_ids_by_name tf_module s =
     (let deployment_target = mod_deploymentTargets tf_module;
          regions = mod_regions tf_module;
          dependencies = mod_dependsOn tf_module;
          s1 = s\<lparr>ALL_REGIONS := fold add_region regions (ALL_REGIONS s)\<rparr>;
          (tree', all_org_accounts_copy) = exclude_step deployment_target (shared_tree s1);
          s2 = s1\<lparr>shared_tree := tree'\<rparr>
      in case resolve_targets_loop deployment_target all_org_accounts_copy [] of
           Inl e \<Rightarrow> (Returned, s2)
         | Inr deployment_target_accounts \<Rightarrow>
             if \<not> list_all (\<lambda>dependent. dependent \<in> set all_modules) dependencies
             then (Returned, s2)
             else
               (let (provider_code, fs1) =
                      create_provider_code (ALL_REGIONS s2) account_ids_by_name (written s2)
                in case create_module_code (mod_name tf_module) (mod_source tf_module)
                          deployment_target_accounts regions (mod_variables tf_module)
                          dependencies fs1 of
                     Inl e \<Rightarrow> (Raised e, s2\<lparr>written := fs1\<rparr>)
                   | Inr (module_code, fs2) \<Rightarrow> (Completed, s2\<lparr>written := fs2\<rparr>)))"

fun deploy_targets_loop ::
  "string list \<Rightarrow> (string, string) dict \<Rightarrow> tf_module list \<Rightarrow> run_state
     \<Rightarrow> outcome \<times> run_state" where
  "deploy_targets_loop all_modules account_ids_by_name [] s = (Completed, s)"
| "deploy_targets_loop all_modules account_ids_by_name (tf_module # rest) s =
     (case module_pass all_modules account_ids_by_name tf_module s of
        (Completed, s') \<Rightarrow> deploy_targets_loop all_modules account_ids_by_name rest s'
      | (outc, s') \<Rightarrow> (outc, s'))"

text \<open>
  \<open>deploy_targets\<close>, given the tree that \<open>get_all_accounts_recursive\<close> returned, the
  content of \<open>ALL_REGIONS\<close> and the file sink at the call.
\<close>

definition deploy_targets ::
  "orgtree \<Rightarrow> tf_module list \<Rightarrow> string list \<Rightarrow> file_sink \<Rightarrow> outcome \<times> run_state" where
  "deploy_targets ou_with_all_accounts tf_modules all_regions fs =
     (let account_ids_by_name = account_ids_by_name_loop ou_with_all_accounts [];
          all_modules = map mod_name tf_modules
      in deploy_targets_loop all_modules account_ids_by_name tf_modules
           \<lparr>shared_tree = ou_with_all_accounts, ALL_REGIONS = all_regions, written = fs\<rparr>)"

section \<open>A small organisation and two modules\<close>

text \<open>
  The inputs of the concrete runs below: an organisation with the management account at the
  root and an audit account in the OU \<open>Security\<close>; a module \<open>baseline\<close> for the management
  account that excludes \<open>Audit\<close>; and a module \<open>logging\<close> for the audit account that depends
  on \<open>baseline\<close>.
\<close>

definition example_org :: orgtree where
  "example_org =
     [(''root'', [\<lparr>acct_Name = ''Management'', acct_Id = ''123456789012''\<rparr>]),
      (''Security'', [\<lparr>acct_Name = ''Audit'', acct_Id = ''555555555555''\<rparr>])]"

definition example_baseline :: tf_module where
  "example_baseline =
     \<lparr>mod_name = ''baseline'', mod_source = ''./modules/baseline'',
      mod_regions = [''eu-west-1''], mod_variables = [], mod_dependsOn = [],
      mod_deploymentTargets =
        [(''accounts'', [''Management'']), (''excludedAccounts'', [''Audit''])]\<rparr>"

definition example_logging :: tf_module where
  "example_logging =
     \<lparr>mod_name = ''logging'', mod_source = ''./modules/logging'',
      mod_regions = [''eu-west-2''], mod_variables = [], mod_dependsOn = [''baseline''],
      mod_deploymentTargets = [(''accounts'', [''Audit''])]\<rparr>"

section \<open>Auxiliary definitions for the proofs\<close>

text \<open>The block of provider text that one (region, account) pair contributes.\<close>

definition provider_block :: "string \<Rightarrow> string \<times> string \<Rightarrow> string" where
  "provider_block region p =
     (if fst p = ''Management''
      then ''provider '' @ dq @ ''aws'' @ dq @ '' {'' @ nl
             @ ''  region = '' @ dq @ region @ dq @ nl
             @ ''}'' @ nl @ nl
      else ''provider '' @ dq @ ''aws'' @ dq @ '' {'' @ nl
             @ ''  assume_role {'' @ nl
             @ ''    role_arn = '' @ dq @ ''arn:aws:iam::'' @ snd p
                 @ '':role/OrganizationAccountAccessRole'' @ dq @ nl
             @ ''  }'' @ nl
             @ ''  alias  = '' @ dq @ region @ ''-'' @ lower (fst p) @ dq @ nl
             @ ''  region = '' @ dq @ region @ dq @ nl
             @ ''}'' @ nl @ nl)"

text \<open>
  The results of formatting every variable of a module at indent 0, up to the first
  exception, and the block of module text that one (region, account) pair contributes
  once the variables are formatted.
\<close>

definition format_variables :: "(string \<times> tf_value) list \<Rightarrow> py_error + rendered list" where
  "format_variables variables = sequence (map (\<lambda>var. format_value (snd var) 0) variables)"

definition variable_lines :: "(string \<times> tf_value) list \<Rightarrow> rendered list \<Rightarrow> string" where
  "variable_lines variables rs =
     concat (map (\<lambda>(var, r). ''  '' @ fst var @ '' = '' @ fstr r @ nl) (zip variables rs))"

definition module_block ::
  "string \<Rightarrow> string \<Rightarrow> (string \<times> tf_value) list \<Rightarrow> rendered list \<Rightarrow> string list \<Rightarrow> string
     \<Rightarrow> string \<times> string \<Rightarrow> string" where
  "module_block module_name module_source variables rs module_dependencies region p =
     ''module '' @ dq @ module_name @ ''-'' @ region @ ''-'' @ lower (fst p) @ dq @ '' {'' @ nl
       @ ''  source = '' @ dq @ module_source @ dq @ nl
       @ variable_lines variables rs
       @ (if lower (fst p) \<noteq> ''management''
          then ''  providers = {'' @ nl
                 @ ''    aws = aws.'' @ region @ ''-'' @ lower (fst p) @ nl
                 @ ''    }'' @ nl
          else [])
       @ (if module_dependencies \<noteq> []
          then ''  depends_on = [ ''
                 @ join '', '' (map (\<lambda>dependent. ''module.'' @ dependent @ ''-'' @ region)
                                  module_dependencies)
                 @ '' ]'' @ nl
          else [])
       @ ''}'' @ nl @ nl"

text \<open>
  The values on which the formatter returns: no value of an unsupported kind anywhere, and
  no list of scalars that holds an integer.
\<close>

fun is_VInt :: "tf_value \<Rightarrow> bool" where
  "is_VInt (VInt _) = True"
| "is_VInt _ = False"

fun formattable :: "tf_value \<Rightarrow> bool" where
  "formattable (VStr _) = True"
| "formattable (VBool _) = True"
| "formattable (VInt _) = True"
| "formattable (VList vs) =
     ((\<forall>v \<in> set vs. formattable v)
      \<and> ((\<forall>v \<in> set vs. \<not> is_container v) \<longrightarrow> (\<forall>v \<in> set vs. \<not> is_VInt v)))"
| "formattable (VDict kvs) = (\<forall>kv \<in> set kvs. formattable (snd kv))"
| "formattable VOther = False"

definition excluded_entry :: "string list \<Rightarrow> string \<times> account list \<Rightarrow> string \<times> account list" where
  "excluded_entry ex p =
     (fst p, if fst p \<in> set ex then [] else filter (\<lambda>a. acct_Name a \<notin> set ex) (snd p))"

section \<open>Properties of the dict operations\<close>

lemma dict_set_keys_present:
  "k \<in> fst ` set d \<Longrightarrow> map fst (dict_set d k v) = map fst d"
  by (induction d) force+

lemma dict_set_keys_absent:
  "k \<notin> fst ` set d \<Longrightarrow> dict_set d k v = d @ [(k, v)]"
  by (induction d) auto

lemma dict_set_middle:
  "k \<notin> fst ` set xs \<Longrightarrow> dict_set (xs @ (k, v0) # ys) k v = xs @ (k, v) # ys"
  by (induction xs) auto

lemma map_of_dict_set:
  "map_of (dict_set d k v) = (map_of d)(k \<mapsto> v)"
  by (induction d) (auto simp: fun_eq_iff)

section \<open>Exclusion filtering\<close>

lemma filter_excluded_value:
  "filter (\<lambda>acc. \<not> (ou \<in> set ex \<or> acct_Name acc \<in> set ex)) accs
     = snd (excluded_entry ex (ou, accs))"
  by (simp add: excluded_entry_def)

lemma filter_excluded_loop_map:
  "distinct (map fst (pre @ items)) \<Longrightarrow>
   filter_excluded_loop items ex (map (excluded_entry ex) pre @ items)
     = map (excluded_entry ex) (pre @ items)"
proof (induction items arbitrary: pre)
  case Nil
  then show ?case by simp
next
  case (Cons p items)
  obtain ou accs where p: "p = (ou, accs)" by (cases p)
  from Cons.prems p have fresh: "ou \<notin> fst ` set (map (excluded_entry ex) pre)"
    by (force simp: excluded_entry_def)
  have step: "dict_set (map (excluded_entry ex) pre @ (ou, accs) # items) ou
                (snd (excluded_entry ex (ou, accs)))
              = map (excluded_entry ex) (pre @ [(ou, accs)]) @ items"
    using dict_set_middle [OF fresh] by (simp add: excluded_entry_def)
  from Cons.prems p have "distinct (map fst ((pre @ [(ou, accs)]) @ items))" by simp
  from Cons.IH [OF this] show ?case
    unfolding p by (simp only: filter_excluded_loop.simps filter_excluded_value step) simp
qed

lemma filter_excluded_accounts_map:
  "distinct (map fst t) \<Longrightarrow> filter_excluded_accounts t ex = map (excluded_entry ex) t"
  using filter_excluded_loop_map [of "[]" t ex] by (simp add: filter_excluded_accounts_def)

text \<open>
  C2. For a well-formed tree, \<open>filter_excluded_accounts\<close> returns a tree with the same
  OU-path keys (in the same order) in which an OU whose path is itself an excluded entry has
  an empty account list, and every other OU keeps exactly its accounts whose name is not an
  excluded entry, in their original order. An OU is emptied only when its own path is
  listed: a sub-path \<open>p/s\<close> of an excluded path \<open>p\<close> that is not listed itself keeps
  its accounts.
\<close>

theorem filter_excluded_accounts_spec:
  assumes "distinct (map fst t)"
  shows "map fst (filter_excluded_accounts t ex) = map fst t
       \<and> (\<forall>(ou, accs) \<in> set t.
            map_of (filter_excluded_accounts t ex) ou
              = Some (if ou \<in> set ex then []
                      else filter (\<lambda>a. acct_Name a \<notin> set ex) accs))
       \<and> (\<forall>(ou, accs) \<in> set t. \<forall>p s.
            ou = p @ ''/'' @ s \<and> p \<in> set ex \<and> ou \<notin> set ex \<longrightarrow>
            map_of (filter_excluded_accounts t ex) ou
              = Some (filter (\<lambda>a. acct_Name a \<notin> set ex) accs))"
proof -
  have eq: "filter_excluded_accounts t ex = map (excluded_entry ex) t"
    by (rule filter_excluded_accounts_map [OF assms])
  have keys: "map fst (map (excluded_entry ex) t) = map fst t"
    by (simp add: excluded_entry_def)
  have look: "map_of (map (excluded_entry ex) t) ou
                = Some (if ou \<in> set ex then [] else filter (\<lambda>a. acct_Name a \<notin> set ex) accs)"
    if "(ou, accs) \<in> set t" for ou accs
  proof -
    have "distinct (map fst (map (excluded_entry ex) t))"
      unfolding keys by (rule assms)
    moreover have "excluded_entry ex (ou, accs) \<in> set (map (excluded_entry ex) t)"
      using that by (simp add: rev_image_eqI)
    ultimately show ?thesis
      by (simp add: excluded_entry_def)
  qed
  show ?thesis
    unfolding eq using keys look by auto
qed

theorem filter_excluded_accounts_spec_witness:
  "distinct (map fst
     [(''root'', [\<lparr>acct_Name = ''Management'', acct_Id = ''123456789012''\<rparr>]),
      (''Workloads'', [\<lparr>acct_Name = ''Shared'', acct_Id = ''111111111111''\<rparr>]),
      (''Workloads/Dev'', [\<lparr>acct_Name = ''TestWorkload'', acct_Id = ''666666666666''\<rparr>,
                           \<lparr>acct_Name = ''DevTools'', acct_Id = ''222222222222''\<rparr>])])
   \<and> map fst (filter_excluded_accounts
     [(''root'', [\<lparr>acct_Name = ''Management'', acct_Id = ''123456789012''\<rparr>]),
      (''Workloads'', [\<lparr>acct_Name = ''Shared'', acct_Id = ''111111111111''\<rparr>]),
      (''Workloads/Dev'', [\<lparr>acct_Name = ''TestWorkload'', acct_Id = ''666666666666''\<rparr>,
                           \<lparr>acct_Name = ''DevTools'', acct_Id = ''222222222222''\<rparr>])]
     [''Workloads'', ''TestWorkload'']) = [''root'', ''Workloads'', ''Workloads/Dev'']
   \<and> map_of (filter_excluded_accounts
     [(''root'', [\<lparr>acct_Name = ''Management'', acct_Id = ''123456789012''\<rparr>]),
      (''Workloads'', [\<lparr>acct_Name = ''Shared'', acct_Id = ''111111111111''\<rparr>]),
      (''Workloads/Dev'', [\<lparr>acct_Name = ''TestWorkload'', acct_Id = ''666666666666''\<rparr>,
                           \<lparr>acct_Name = ''DevTools'', acct_Id = ''222222222222''\<rparr>])]
     [''Workloads'', ''TestWorkload'']) ''Workloads'' = Some []
   \<and> map_of (filter_excluded_accounts
     [(''root'', [\<lparr>acct_Name = ''Management'', acct_Id = ''123456789012''\<rparr>]),
      (''Workloads'', [\<lparr>acct_Name = ''Shared'', acct_Id = ''111111111111''\<rparr>]),
      (''Workloads/Dev'', [\<lparr>acct_Name = ''TestWorkload'', acct_Id = ''666666666666''\<rparr>,
                           \<lparr>acct_Name = ''DevTools'', acct_Id = ''222222222222''\<rparr>])]
     [''Workloads'', ''TestWorkload'']) ''Workloads/Dev''
       = Some [\<lparr>acct_Name = ''DevTools'', acct_Id = ''222222222222''\<rparr>]"
  using filter_excluded_accounts_spec
    [of "[(''root'', [\<lparr>acct_Name = ''Management'', acct_Id = ''123456789012''\<rparr>]),
      (''Workloads'', [\<lparr>acct_Name = ''Shared'', acct_Id = ''111111111111''\<rparr>]),
      (''Workloads/Dev'', [\<lparr>acct_Name = ''TestWorkload'', acct_Id = ''666666666666''\<rparr>,
                           \<lparr>acct_Name = ''DevTools'', acct_Id = ''222222222222''\<rparr>])]"
        "[''Workloads'', ''TestWorkload'']"]
  by simp

section \<open>Resolution by OU path\<close>

lemma account_ids_from_ou_loop_missing:
  "p \<in> set paths \<Longrightarrow> map_of t p = None \<Longrightarrow>
   account_ids_from_ou_loop paths t acc = Inl TypeError_NoneNotIterable"
  by (induction paths arbitrary: acc) (auto split: option.splits)

text \<open>
  C8. Whenever a requested OU path is not a key of the tree, \<open>account_ids_from_ou\<close>
  raises (the \<open>TypeError\<close> of iterating the \<open>None\<close> that \<open>dict.get\<close> returned) and so
  returns no mapping at all, whatever the other requested paths are.
\<close>

theorem account_ids_from_ou_missing_path:
  assumes "p \<in> set paths" and "p \<notin> fst ` set t"
  shows "account_ids_from_ou paths t = Inl TypeError_NoneNotIterable"
proof -
  from assms(2) have "map_of t p = None" by (simp add: map_of_eq_None_iff)
  with assms(1) show ?thesis
    unfolding account_ids_from_ou_def by (rule account_ids_from_ou_loop_missing)
qed

theorem account_ids_from_ou_missing_path_witness:
  "''Workloads/Pre'' \<in> set [''Workloads/Pro'', ''Workloads/Pre'']
   \<and> ''Workloads/Pre'' \<notin> fst ` set
        [(''Workloads/Pro'', [\<lparr>acct_Name = ''TestProdWorkload'', acct_Id = ''777777777777''\<rparr>]),
         (''Workloads/Dev'', [\<lparr>acct_Name = ''TestWorkload'', acct_Id = ''666666666666''\<rparr>])]
   \<and> account_ids_from_ou [''Workloads/Pro'', ''Workloads/Pre'']
        [(''Workloads/Pro'', [\<lparr>acct_Name = ''TestProdWorkload'', acct_Id = ''777777777777''\<rparr>]),
         (''Workloads/Dev'', [\<lparr>acct_Name = ''TestWorkload'', acct_Id = ''666666666666''\<rparr>])]
       = Inl TypeError_NoneNotIterable"
  using account_ids_from_ou_missing_path
    [of "''Workloads/Pre''" "[''Workloads/Pro'', ''Workloads/Pre'']"
        "[(''Workloads/Pro'', [\<lparr>acct_Name = ''TestProdWorkload'', acct_Id = ''777777777777''\<rparr>]),
         (''Workloads/Dev'', [\<lparr>acct_Name = ''TestWorkload'', acct_Id = ''666666666666''\<rparr>])]"]
  by simp

lemma dict_set_keys: "fst ` set (dict_set d k v) = insert k (fst ` set d)"
proof (induction d)
  case Nil
  then show ?case by simp
next
  case (Cons p d)
  then show ?case by (cases p) (simp add: insert_commute)
qed

lemma dict_set_distinct:
  "distinct (map fst d) \<Longrightarrow> distinct (map fst (dict_set d k v))"
proof (induction d)
  case Nil
  then show ?case by simp
next
  case (Cons p d)
  then show ?case by (cases p) (auto simp: dict_set_keys)
qed

lemma dict_set_subset: "set (dict_set d k v) \<subseteq> insert (k, v) (set d)"
proof (induction d)
  case Nil
  then show ?case by simp
next
  case (Cons p d)
  then show ?case by (cases p) (auto simp: subset_iff)
qed

lemma ou_accounts_loop_append:
  "ou_accounts_loop (xs @ ys) acc = ou_accounts_loop ys (ou_accounts_loop xs acc)"
  by (induction xs arbitrary: acc) auto

lemma ou_accounts_loop_distinct:
  "distinct (map fst acc) \<Longrightarrow> distinct (map fst (ou_accounts_loop xs acc))"
  by (induction xs arbitrary: acc) (auto simp: dict_set_distinct)

lemma ou_accounts_loop_keys:
  "fst ` set (ou_accounts_loop xs acc) = fst ` set acc \<union> acct_Name ` set xs"
  by (induction xs arbitrary: acc) (auto simp: dict_set_keys)

lemma ou_accounts_loop_subset:
  "set (ou_accounts_loop xs acc) \<subseteq> set acc \<union> name_id ` set xs"
proof (induction xs arbitrary: acc)
  case Nil
  then show ?case by simp
next
  case (Cons a xs)
  have "set (ou_accounts_loop xs (dict_set acc (acct_Name a) (acct_Id a)))
          \<subseteq> set (dict_set acc (acct_Name a) (acct_Id a)) \<union> name_id ` set xs"
    by (rule Cons.IH)
  also have "\<dots> \<subseteq> insert (name_id a) (set acc) \<union> name_id ` set xs"
    using dict_set_subset [of acc "acct_Name a" "acct_Id a"] by (auto simp: name_id_def)
  finally show ?case by auto
qed

lemma ou_accounts_loop_map_of:
  "map_of (ou_accounts_loop xs acc) = map_of acc ++ map_of (rev (map name_id xs))"
proof (induction xs arbitrary: acc)
  case Nil
  then show ?case by simp
next
  case (Cons a xs)
  show ?case
    by (simp add: Cons.IH map_of_dict_set name_id_def map_add_upd_left fun_eq_iff map_add_def
          split: option.splits)
qed

lemma ou_accounts_loop_fresh:
  "distinct (map acct_Name xs) \<Longrightarrow> acct_Name ` set xs \<inter> fst ` set acc = {} \<Longrightarrow>
   ou_accounts_loop xs acc = acc @ map name_id xs"
proof (induction xs arbitrary: acc)
  case Nil
  then show ?case by simp
next
  case (Cons a xs)
  from Cons.prems have fresh: "acct_Name a \<notin> fst ` set acc" by auto
  have step: "dict_set acc (acct_Name a) (acct_Id a) = acc @ [name_id a]"
    using dict_set_keys_absent [OF fresh] by (simp add: name_id_def)
  from Cons.prems have "distinct (map acct_Name xs)"
    and "acct_Name ` set xs \<inter> fst ` set (acc @ [name_id a]) = {}"
    by (auto simp: name_id_def)
  from Cons.IH [OF this] show ?case by (simp add: step)
qed

lemma account_ids_from_ou_loop_all:
  "(\<And>ou accs. (ou, accs) \<in> set items \<Longrightarrow> map_of t ou = Some accs) \<Longrightarrow>
   account_ids_from_ou_loop (map fst items) t acc
     = Inr (ou_accounts_loop (concat (map snd items)) acc)"
proof (induction items arbitrary: acc)
  case Nil
  then show ?case by simp
next
  case (Cons p items)
  obtain ou accs where p: "p = (ou, accs)" by (cases p)
  from Cons.prems p have here: "map_of t ou = Some accs" by simp
  have rest: "\<And>ou accs. (ou, accs) \<in> set items \<Longrightarrow> map_of t ou = Some accs"
    using Cons.prems by simp
  show ?case
    by (simp add: p here Cons.IH [OF rest] ou_accounts_loop_append)
qed

lemma account_ids_from_ou_all_keys:
  assumes "distinct (map fst t)"
  shows "account_ids_from_ou (map fst t) t = Inr (ou_accounts_loop (tree_accounts t) [])"
  unfolding account_ids_from_ou_def tree_accounts_def
  by (rule account_ids_from_ou_loop_all) (simp add: assms)

text \<open>
  C9, as amended. Applied to all OU paths of a well-formed tree, \<open>account_ids_from_ou\<close>
  returns a dict whose pairs are all name/id pairs of accounts of the tree and whose keys are
  exactly the account names of the tree; a name carried by several accounts maps to the id of
  the last of them in traversal order. When accounts of equal name have equal ids, the
  result holds exactly the name/id pairs of the flattened tree, and when the names are
  pairwise distinct it is the flattened list of pairs itself, each once and in order.
\<close>

theorem account_ids_from_ou_all_paths:
  assumes "distinct (map fst t)"
  shows "\<exists>r. account_ids_from_ou (map fst t) t = Inr r
           \<and> distinct (map fst r)
           \<and> set r \<subseteq> name_id ` set (tree_accounts t)
           \<and> fst ` set r = acct_Name ` set (tree_accounts t)
           \<and> map_of r = map_of (rev (map name_id (tree_accounts t)))
           \<and> ((\<forall>a \<in> set (tree_accounts t). \<forall>b \<in> set (tree_accounts t).
                  acct_Name a = acct_Name b \<longrightarrow> acct_Id a = acct_Id b)
                \<longrightarrow> set r = name_id ` set (tree_accounts t))
           \<and> (distinct (map acct_Name (tree_accounts t))
                \<longrightarrow> r = map name_id (tree_accounts t))"
proof -
  let ?xs = "tree_accounts t"
  let ?r = "ou_accounts_loop ?xs []"
  have run: "account_ids_from_ou (map fst t) t = Inr ?r"
    by (rule account_ids_from_ou_all_keys [OF assms])
  have d: "distinct (map fst ?r)" by (simp add: ou_accounts_loop_distinct)
  have sub: "set ?r \<subseteq> name_id ` set ?xs"
    using ou_accounts_loop_subset [of ?xs "[]"] by simp
  have keys: "fst ` set ?r = acct_Name ` set ?xs"
    by (simp add: ou_accounts_loop_keys)
  have mo: "map_of ?r = map_of (rev (map name_id ?xs))"
    by (simp add: ou_accounts_loop_map_of)
  have all: "set ?r = name_id ` set ?xs"
    if fn: "\<forall>a \<in> set ?xs. \<forall>b \<in> set ?xs. acct_Name a = acct_Name b \<longrightarrow> acct_Id a = acct_Id b"
  proof
    show "set ?r \<subseteq> name_id ` set ?xs" by (rule sub)
    show "name_id ` set ?xs \<subseteq> set ?r"
    proof
      fix p assume "p \<in> name_id ` set ?xs"
      then obtain a where a: "a \<in> set ?xs" and p: "p = name_id a" by auto
      from a keys have "acct_Name a \<in> fst ` set ?r" by auto
      then obtain i where i: "(acct_Name a, i) \<in> set ?r" by force
      with sub obtain b where b: "b \<in> set ?xs" and "(acct_Name a, i) = name_id b" by auto
      then have "acct_Name b = acct_Name a" and "i = acct_Id b" by (auto simp: name_id_def)
      with fn a b have "i = acct_Id a" by metis
      with i p show "p \<in> set ?r" by (simp add: name_id_def)
    qed
  qed
  have exact: "?r = map name_id ?xs" if "distinct (map acct_Name ?xs)"
    using ou_accounts_loop_fresh [OF that, of "[]"] by simp
  from run d sub keys mo all exact show ?thesis by blast
qed

theorem account_ids_from_ou_all_paths_witness:
  "distinct (map fst
     [(''Workloads/Pro'', [\<lparr>acct_Name = ''TestProdWorkload'', acct_Id = ''777777777777''\<rparr>]),
      (''Workloads/Dev'', [\<lparr>acct_Name = ''TestWorkload'', acct_Id = ''666666666666''\<rparr>])])
   \<and> account_ids_from_ou [''Workloads/Pro'', ''Workloads/Dev'']
     [(''Workloads/Pro'', [\<lparr>acct_Name = ''TestProdWorkload'', acct_Id = ''777777777777''\<rparr>]),
      (''Workloads/Dev'', [\<lparr>acct_Name = ''TestWorkload'', acct_Id = ''666666666666''\<rparr>])]
     = Inr [(''TestProdWorkload'', ''777777777777''), (''TestWorkload'', ''666666666666'')]"
  using account_ids_from_ou_all_paths
    [of "[(''Workloads/Pro'', [\<lparr>acct_Name = ''TestProdWorkload'', acct_Id = ''777777777777''\<rparr>]),
      (''Workloads/Dev'', [\<lparr>acct_Name = ''TestWorkload'', acct_Id = ''666666666666''\<rparr>])]"]
  by (simp add: tree_accounts_def name_id_def)

text \<open>
  Two accounts named \<open>Audit\<close> with different ids: the pair of the first one is not in
  the result, so the claim as stated (every account's pair appears) fails.
\<close>

theorem account_ids_from_ou_all_paths_counterexample:
  "account_ids_from_ou
     (map fst [(''Security'', [\<lparr>acct_Name = ''Audit'', acct_Id = ''111111111111''\<rparr>]),
               (''Sandbox'', [\<lparr>acct_Name = ''Audit'', acct_Id = ''222222222222''\<rparr>])])
     [(''Security'', [\<lparr>acct_Name = ''Audit'', acct_Id = ''111111111111''\<rparr>]),
      (''Sandbox'', [\<lparr>acct_Name = ''Audit'', acct_Id = ''222222222222''\<rparr>])]
     = Inr [(''Audit'', ''222222222222'')]
   \<and> (''Audit'', ''111111111111'') \<in> name_id ` set (tree_accounts
        [(''Security'', [\<lparr>acct_Name = ''Audit'', acct_Id = ''111111111111''\<rparr>]),
         (''Sandbox'', [\<lparr>acct_Name = ''Audit'', acct_Id = ''222222222222''\<rparr>])])
   \<and> (''Audit'', ''111111111111'') \<notin> set [(''Audit'', ''222222222222'')]"
  by (simp add: account_ids_from_ou_def tree_accounts_def name_id_def)

section \<open>Resolution by account name\<close>










section \<open>Provider generation\<close>

lemma provider_accounts_loop_concat:
  "provider_accounts_loop region accts builder
     = builder @ concat (map (provider_block region) accts)"
proof (induction accts arbitrary: builder)
  case Nil
  then show ?case by simp
next
  case (Cons p accts)
  obtain account_name account_id where p: "p = (account_name, account_id)" by (cases p)
  show ?case
    unfolding p by (simp add: Cons.IH provider_block_def)
qed

lemma provider_regions_loop_concat:
  "provider_regions_loop regions accts builder
     = builder @ concat (map (\<lambda>region. concat (map (provider_block region) accts)) regions)"
  by (induction regions arbitrary: builder) (simp_all add: provider_accounts_loop_concat)

text \<open>
  C4. The provider text is the concatenation, regions outermost and accounts in dict order,
  of one block per (region, account) pair: for the account named exactly \<open>Management\<close> a
  block holding only the region, for any other account one block with an \<open>assume_role\<close> of
  \<open>arn:aws:iam::<id>:role/OrganizationAccountAccessRole\<close> and the alias
  \<open><region>-<lowercased name>\<close>. The same text is what the file sink receives for
  \<open>terraform/provider.tf\<close>. For the accounts \<open>Management\<close> and \<open>Audit\<close> and the region
  \<open>eu-west-2\<close> the text is the bare block followed by one assume-role block aliased
  \<open>eu-west-2-audit\<close>; \<open>assume_role\<close> occurs once in it.
\<close>

theorem create_provider_code_blocks:
  "fst (create_provider_code regions account_ids_by_name fs)
     = concat (map (\<lambda>region. concat (map (\<lambda>(account_name, account_id).
         if account_name = ''Management''
         then ''provider '' @ dq @ ''aws'' @ dq @ '' {'' @ nl
                @ ''  region = '' @ dq @ region @ dq @ nl
                @ ''}'' @ nl @ nl
         else ''provider '' @ dq @ ''aws'' @ dq @ '' {'' @ nl
                @ ''  assume_role {'' @ nl
                @ ''    role_arn = '' @ dq @ ''arn:aws:iam::'' @ account_id
                    @ '':role/OrganizationAccountAccessRole'' @ dq @ nl
                @ ''  }'' @ nl
                @ ''  alias  = '' @ dq @ region @ ''-'' @ lower account_name @ dq @ nl
                @ ''  region = '' @ dq @ region @ dq @ nl
                @ ''}'' @ nl @ nl) account_ids_by_name)) regions)
   \<and> snd (create_provider_code regions account_ids_by_name fs)
     = fs @ [(''terraform/provider.tf'', fst (create_provider_code regions account_ids_by_name fs))]
   \<and> fst (create_provider_code [''eu-west-2'']
            [(''Management'', ''123456789012''), (''Audit'', ''555555555555'')] fs)
     = ''provider '' @ dq @ ''aws'' @ dq @ '' {'' @ nl
         @ ''  region = '' @ dq @ ''eu-west-2'' @ dq @ nl
         @ ''}'' @ nl @ nl
         @ ''provider '' @ dq @ ''aws'' @ dq @ '' {'' @ nl
         @ ''  assume_role {'' @ nl
         @ ''    role_arn = '' @ dq
             @ ''arn:aws:iam::555555555555:role/OrganizationAccountAccessRole'' @ dq @ nl
         @ ''  }'' @ nl
         @ ''  alias  = '' @ dq @ ''eu-west-2-audit'' @ dq @ nl
         @ ''  region = '' @ dq @ ''eu-west-2'' @ dq @ nl
         @ ''}'' @ nl @ nl
   \<and> occurrences ''assume_role'' (fst (create_provider_code [''eu-west-2'']
            [(''Management'', ''123456789012''), (''Audit'', ''555555555555'')] fs)) = 1"
proof -
  have blocks: "provider_block = (\<lambda>region (account_name, account_id).
         if account_name = ''Management''
         then ''provider '' @ dq @ ''aws'' @ dq @ '' {'' @ nl
                @ ''  region = '' @ dq @ region @ dq @ nl
                @ ''}'' @ nl @ nl
         else ''provider '' @ dq @ ''aws'' @ dq @ '' {'' @ nl
                @ ''  assume_role {'' @ nl
                @ ''    role_arn = '' @ dq @ ''arn:aws:iam::'' @ account_id
                    @ '':role/OrganizationAccountAccessRole'' @ dq @ nl
                @ ''  }'' @ nl
                @ ''  alias  = '' @ dq @ region @ ''-'' @ lower account_name @ dq @ nl
                @ ''  region = '' @ dq @ region @ dq @ nl
                @ ''}'' @ nl @ nl)"
    by (simp add: provider_block_def fun_eq_iff)
  have general: "fst (create_provider_code regions account_ids_by_name fs)
      = concat (map (\<lambda>region. concat (map (provider_block region) account_ids_by_name)) regions)"
    for regions account_ids_by_name
    by (simp add: create_provider_code_def Let_def provider_regions_loop_concat)
  have sink: "snd (create_provider_code regions account_ids_by_name fs)
     = fs @ [(''terraform/provider.tf'', fst (create_provider_code regions account_ids_by_name fs))]"
    by (simp add: create_provider_code_def Let_def write_to_file_def)
  have example: "fst (create_provider_code [''eu-west-2'']
            [(''Management'', ''123456789012''), (''Audit'', ''555555555555'')] fs)
     = ''provider '' @ dq @ ''aws'' @ dq @ '' {'' @ nl
         @ ''  region = '' @ dq @ ''eu-west-2'' @ dq @ nl
         @ ''}'' @ nl @ nl
         @ ''provider '' @ dq @ ''aws'' @ dq @ '' {'' @ nl
         @ ''  assume_role {'' @ nl
         @ ''    role_arn = '' @ dq
             @ ''arn:aws:iam::555555555555:role/OrganizationAccountAccessRole'' @ dq @ nl
         @ ''  }'' @ nl
         @ ''  alias  = '' @ dq @ ''eu-west-2-audit'' @ dq @ nl
         @ ''  region = '' @ dq @ ''eu-west-2'' @ dq @ nl
         @ ''}'' @ nl @ nl"
    unfolding general
    by (simp add: provider_block_def lower_def lower_char_def dq_def nl_def)
  have once: "occurrences ''assume_role'' (fst (create_provider_code [''eu-west-2'']
            [(''Management'', ''123456789012''), (''Audit'', ''555555555555'')] fs)) = 1"
    unfolding example by (simp add: dq_def nl_def)
  from general [of regions account_ids_by_name] sink example once show ?thesis
    unfolding blocks by simp
qed

section \<open>Module generation\<close>

lemma module_variables_loop_lines:
  "module_variables_loop variables module_code
     = (case format_variables variables of
          Inl e \<Rightarrow> Inl e
        | Inr rs \<Rightarrow> Inr (module_code @ variable_lines variables rs))"
proof (induction variables arbitrary: module_code)
  case Nil
  then show ?case by (simp add: format_variables_def variable_lines_def)
next
  case (Cons var variables)
  obtain name val where var: "var = (name, val)" by (cases var)
  show ?case
    unfolding var using Cons.IH
    by (auto simp: format_variables_def variable_lines_def split: sum.splits)
qed

lemma module_depends_loop_concat:
  "module_depends_loop deps region module_code
     = module_code @ concat (map (\<lambda>dependent. ''module.'' @ dependent @ ''-'' @ region @ '', '') deps)"
  by (induction deps arbitrary: module_code) simp_all

lemma concat_sep_join:
  "xs \<noteq> [] \<Longrightarrow> concat (map (\<lambda>x. f x @ sep) xs) = join sep (map f xs) @ sep"
proof (induction xs)
  case Nil
  then show ?case by simp
next
  case (Cons x xs)
  then show ?case by (cases xs) simp_all
qed

lemma depends_slice:
  assumes "deps \<noteq> []"
  shows "take (length (module_depends_loop deps region module_code) - 2)
           (module_depends_loop deps region module_code)
         = module_code @ join '', '' (map (\<lambda>dependent. ''module.'' @ dependent @ ''-'' @ region) deps)"
proof -
  have "concat (map (\<lambda>dependent. (''module.'' @ dependent @ ''-'' @ region) @ '', '') deps)
          = join '', '' (map (\<lambda>dependent. ''module.'' @ dependent @ ''-'' @ region) deps) @ '', ''"
    by (rule concat_sep_join [OF assms])
  then have "module_depends_loop deps region module_code
          = (module_code @ join '', '' (map (\<lambda>dependent. ''module.'' @ dependent @ ''-'' @ region) deps))
              @ '', ''"
    by (simp add: module_depends_loop_concat)
  then show ?thesis by simp
qed

lemma module_accounts_loop_ok:
  assumes "format_variables variables = Inr rs"
  shows "module_accounts_loop module_name module_source variables deps region accts module_code
     = Inr (module_code
            @ concat (map (module_block module_name module_source variables rs deps region) accts))"
proof (induction accts arbitrary: module_code)
  case Nil
  then show ?case by simp
next
  case (Cons p accts)
  obtain account_name account_id where p: "p = (account_name, account_id)" by (cases p)
  show ?case
  proof (cases "variables = []")
    case True
    with assms have rs: "rs = []" by (simp add: format_variables_def)
    show ?thesis
      unfolding p True rs using Cons.IH [unfolded True rs]
      by (simp add: Let_def module_block_def depends_slice variable_lines_def)
  next
    case False
    show ?thesis
      unfolding p
      by (simp add: False Let_def module_variables_loop_lines assms Cons.IH module_block_def
            depends_slice)
  qed
qed

lemma module_accounts_loop_error:
  assumes "format_variables variables = Inl e" and "accts \<noteq> []"
  shows "module_accounts_loop module_name module_source variables deps region accts module_code
     = Inl e"
proof -
  from assms(1) have ne: "variables \<noteq> []" by (auto simp: format_variables_def)
  obtain account_name account_id rest where "accts = (account_name, account_id) # rest"
    using assms(2) by (cases accts) auto
  then show ?thesis
    by (simp add: Let_def module_variables_loop_lines assms(1) ne)
qed

lemma module_regions_loop_ok:
  assumes "format_variables variables = Inr rs"
  shows "module_regions_loop module_name module_source variables deps regions accts module_code
     = Inr (module_code @ concat (map (\<lambda>region.
         concat (map (module_block module_name module_source variables rs deps region) accts))
           regions))"
  by (induction regions arbitrary: module_code)
     (simp_all add: module_accounts_loop_ok [OF assms])

lemma module_regions_loop_error:
  assumes "format_variables variables = Inl e" and "accts \<noteq> []" and "regions \<noteq> []"
  shows "module_regions_loop module_name module_source variables deps regions accts module_code
     = Inl e"
  using assms(3) by (cases regions) (simp_all add: module_accounts_loop_error [OF assms(1,2)])

lemma module_regions_loop_no_accounts:
  "module_regions_loop module_name module_source variables deps regions [] module_code
     = Inr module_code"
  by (induction regions) simp_all

text \<open>
  C5, as amended. Let the variables of the module be formatted by \<open>format_value\<close> at
  indent 0. If none of them raises, \<open>create_module_code\<close> returns, and hands to the file sink under
  \<open>terraform/<module>.tf\<close>, the concatenation (regions outermost, accounts in dict order)
  of one block per (region, account) pair: the header
  \<open>module "<module>-<region>-<lowercased name>"\<close>, the source line, one line
  \<open><name> = <formatted value>\<close> per variable in declared order, the \<open>providers\<close> entry
  \<open>aws.<region>-<lowercased name>\<close> unless the lowercased name is \<open>management\<close>, and,
  when there are dependencies, one \<open>depends_on\<close> list with the entry
  \<open>module.<dependency>-<region>\<close> for every dependency. If a variable raises and there is
  at least one pair, the exception leaves \<open>create_module_code\<close> and nothing is written;
  with no pair at all the text is empty.
\<close>

theorem create_module_code_blocks:
  "(\<forall>rs. format_variables variables = Inr rs \<longrightarrow>
      create_module_code module_name module_source deployment_account_ids regions variables
          module_dependencies fs
        = (let module_code =
                 concat (map (\<lambda>region. concat (map (\<lambda>(account_name, account_id).
                  ''module '' @ dq @ module_name @ ''-'' @ region @ ''-'' @ lower account_name @ dq
                      @ '' {'' @ nl
                  @ ''  source = '' @ dq @ module_source @ dq @ nl
                  @ concat (map (\<lambda>((name, val), r). ''  '' @ name @ '' = '' @ fstr r @ nl)
                              (zip variables rs))
                  @ (if lower account_name \<noteq> ''management''
                     then ''  providers = {'' @ nl
                            @ ''    aws = aws.'' @ region @ ''-'' @ lower account_name @ nl
                            @ ''    }'' @ nl
                     else [])
                  @ (if module_dependencies \<noteq> []
                     then ''  depends_on = [ ''
                            @ join '', '' (map (\<lambda>dependent. ''module.'' @ dependent @ ''-'' @ region)
                                             module_dependencies)
                            @ '' ]'' @ nl
                     else [])
                  @ ''}'' @ nl @ nl) deployment_account_ids)) regions)
           in Inr (module_code,
                   fs @ [(''terraform/'' @ module_name @ ''.tf'', module_code)])))
   \<and> (\<forall>e. format_variables variables = Inl e \<and> deployment_account_ids \<noteq> []
            \<and> regions \<noteq> [] \<longrightarrow>
      create_module_code module_name module_source deployment_account_ids regions variables
          module_dependencies fs = Inl e)
   \<and> (deployment_account_ids = [] \<or> regions = [] \<longrightarrow>
      create_module_code module_name module_source deployment_account_ids regions variables
          module_dependencies fs
        = Inr ([], fs @ [(''terraform/'' @ module_name @ ''.tf'', [])]))"
proof -
  have blocks: "module_block module_name module_source variables rs module_dependencies
      = (\<lambda>region (account_name, account_id).
                  ''module '' @ dq @ module_name @ ''-'' @ region @ ''-'' @ lower account_name @ dq
                      @ '' {'' @ nl
                  @ ''  source = '' @ dq @ module_source @ dq @ nl
                  @ concat (map (\<lambda>((name, val), r). ''  '' @ name @ '' = '' @ fstr r @ nl)
                              (zip variables rs))
                  @ (if lower account_name \<noteq> ''management''
                     then ''  providers = {'' @ nl
                            @ ''    aws = aws.'' @ region @ ''-'' @ lower account_name @ nl
                            @ ''    }'' @ nl
                     else [])
                  @ (if module_dependencies \<noteq> []
                     then ''  depends_on = [ ''
                            @ join '', '' (map (\<lambda>dependent. ''module.'' @ dependent @ ''-'' @ region)
                                             module_dependencies)
                            @ '' ]'' @ nl
                     else [])
                  @ ''}'' @ nl @ nl)" for rs
    by (simp add: module_block_def variable_lines_def fun_eq_iff case_prod_unfold)
  have ok: "create_module_code module_name module_source deployment_account_ids regions variables
          module_dependencies fs
        = (let module_code = concat (map (\<lambda>region. concat (map
                 (module_block module_name module_source variables rs module_dependencies region)
                 deployment_account_ids)) regions)
           in Inr (module_code,
                   fs @ [(''terraform/'' @ module_name @ ''.tf'', module_code)]))"
    if "format_variables variables = Inr rs" for rs
    by (simp add: create_module_code_def module_regions_loop_ok [OF that] write_to_file_def
          Let_def)
  have err: "create_module_code module_name module_source deployment_account_ids regions variables
          module_dependencies fs = Inl e"
    if "format_variables variables = Inl e" "deployment_account_ids \<noteq> []" "regions \<noteq> []" for e
    by (simp add: create_module_code_def module_regions_loop_error [OF that])
  have none: "create_module_code module_name module_source deployment_account_ids regions variables
          module_dependencies fs
        = Inr ([], fs @ [(''terraform/'' @ module_name @ ''.tf'', [])])"
    if "deployment_account_ids = [] \<or> regions = []"
    using that
    by (auto simp: create_module_code_def module_regions_loop_no_accounts write_to_file_def)
  from ok err none show ?thesis
    unfolding blocks by blast
qed

theorem create_module_code_blocks_witness:
  "format_variables [(''size'', VInt 10)] = Inr [RInt 10]
   \<and> create_module_code ''net'' ''github.com/x/net'' [(''Audit'', ''555555555555'')]
         [''eu-west-2''] [(''size'', VInt 10)] [''base''] []
       = Inr (''module '' @ dq @ ''net-eu-west-2-audit'' @ dq @ '' {'' @ nl
                @ ''  source = '' @ dq @ ''github.com/x/net'' @ dq @ nl
                @ ''  size = 10'' @ nl
                @ ''  providers = {'' @ nl
                @ ''    aws = aws.eu-west-2-audit'' @ nl
                @ ''    }'' @ nl
                @ ''  depends_on = [ module.base-eu-west-2 ]'' @ nl
                @ ''}'' @ nl @ nl,
              [(''terraform/net.tf'',
                ''module '' @ dq @ ''net-eu-west-2-audit'' @ dq @ '' {'' @ nl
                @ ''  source = '' @ dq @ ''github.com/x/net'' @ dq @ nl
                @ ''  size = 10'' @ nl
                @ ''  providers = {'' @ nl
                @ ''    aws = aws.eu-west-2-audit'' @ nl
                @ ''    }'' @ nl
                @ ''  depends_on = [ module.base-eu-west-2 ]'' @ nl
                @ ''}'' @ nl @ nl)])
   \<and> format_variables [(''size'', VOther)] = Inl TypeError_Unsupported
   \<and> create_module_code ''net'' ''github.com/x/net'' [(''Audit'', ''555555555555'')]
         [''eu-west-2''] [(''size'', VOther)] [''base''] [] = Inl TypeError_Unsupported
   \<and> create_module_code ''net'' ''github.com/x/net'' []
         [''eu-west-2''] [(''size'', VOther)] [''base''] [] = Inr ([], [(''terraform/net.tf'', [])])"
proof -
  have f1: "format_variables [(''size'', VInt 10)] = Inr [RInt 10]"
    by (simp add: format_variables_def)
  have f2: "format_variables [(''size'', VOther)] = Inl TypeError_Unsupported"
    by (simp add: format_variables_def)
  have ten: "str_int 10 = ''10''"
    by (simp add: str_int_def str_nat.simps)
  note a = create_module_code_blocks [of "[(''size'', VInt 10)]" "''net''" "''github.com/x/net''"
      "[(''Audit'', ''555555555555'')]" "[''eu-west-2'']" "[''base'']" "[]"]
  note b = create_module_code_blocks [of "[(''size'', VOther)]" "''net''" "''github.com/x/net''"
      "[(''Audit'', ''555555555555'')]" "[''eu-west-2'']" "[''base'']" "[]"]
  note c = create_module_code_blocks [of "[(''size'', VOther)]" "''net''" "''github.com/x/net''"
      "[]" "[''eu-west-2'']" "[''base'']" "[]"]
  from a f1 have A: "create_module_code ''net'' ''github.com/x/net'' [(''Audit'', ''555555555555'')]
         [''eu-west-2''] [(''size'', VInt 10)] [''base''] []
       = Inr (''module '' @ dq @ ''net-eu-west-2-audit'' @ dq @ '' {'' @ nl
                @ ''  source = '' @ dq @ ''github.com/x/net'' @ dq @ nl
                @ ''  size = 10'' @ nl
                @ ''  providers = {'' @ nl
                @ ''    aws = aws.eu-west-2-audit'' @ nl
                @ ''    }'' @ nl
                @ ''  depends_on = [ module.base-eu-west-2 ]'' @ nl
                @ ''}'' @ nl @ nl,
              [(''terraform/net.tf'',
                ''module '' @ dq @ ''net-eu-west-2-audit'' @ dq @ '' {'' @ nl
                @ ''  source = '' @ dq @ ''github.com/x/net'' @ dq @ nl
                @ ''  size = 10'' @ nl
                @ ''  providers = {'' @ nl
                @ ''    aws = aws.eu-west-2-audit'' @ nl
                @ ''    }'' @ nl
                @ ''  depends_on = [ module.base-eu-west-2 ]'' @ nl
                @ ''}'' @ nl @ nl)])"
    by (simp add: Let_def lower_def lower_char_def ten)
  from b f2 have B: "create_module_code ''net'' ''github.com/x/net'' [(''Audit'', ''555555555555'')]
         [''eu-west-2''] [(''size'', VOther)] [''base''] [] = Inl TypeError_Unsupported"
    by simp
  from c have C: "create_module_code ''net'' ''github.com/x/net'' []
         [''eu-west-2''] [(''size'', VOther)] [''base''] [] = Inr ([], [(''terraform/net.tf'', [])])"
    by simp
  from f1 f2 A B C show ?thesis by simp
qed

section \<open>The module passes of \<open>deploy_targets\<close>\<close>

text \<open>The definitions to unfold when a concrete run is evaluated.\<close>

lemmas example_defs = example_org_def example_baseline_def example_logging_def

lemmas run_defs = deploy_targets_def module_pass_def exclude_step_def Let_def
  create_provider_code_def create_module_code_def write_to_file_def
  filter_excluded_accounts_def account_ids_from_name_def account_ids_from_name_run_def
  account_ids_from_ou_def add_region_def



lemma module_pass_unknown_dependency:
  assumes "d \<in> set (mod_dependsOn m)" and "d \<notin> set all_modules"
  shows "fst (module_pass all_modules byname m s) = Returned"
    and "written (snd (module_pass all_modules byname m s)) = written s"
proof -
  from assms have bad: "\<not> list_all (\<lambda>dependent. dependent \<in> set all_modules) (mod_dependsOn m)"
    by (auto simp: list_all_iff)
  show "fst (module_pass all_modules byname m s) = Returned"
    by (simp add: module_pass_def Let_def bad split: prod.splits sum.splits)
  show "written (snd (module_pass all_modules byname m s)) = written s"
    by (simp add: module_pass_def Let_def bad split: prod.splits sum.splits)
qed

lemma module_pass_completed_written:
  assumes "fst (module_pass all_modules byname m s) = Completed"
  shows "\<exists>module_code. written (snd (module_pass all_modules byname m s))
     = written s
       @ [(''terraform/provider.tf'',
           fst (create_provider_code
                  (ALL_REGIONS (snd (module_pass all_modules byname m s))) byname [])),
          (''terraform/'' @ mod_name m @ ''.tf'', module_code)]"
  using assms
  by (auto simp: module_pass_def Let_def create_provider_code_def create_module_code_def
        write_to_file_def split: prod.splits sum.splits if_splits)

lemma deploy_targets_loop_stops:
  "fst (module_pass all_modules byname m s) \<noteq> Completed \<Longrightarrow>
   deploy_targets_loop all_modules byname (m # rest) s = module_pass all_modules byname m s"
  by (cases "module_pass all_modules byname m s") (auto split: outcome.splits)

lemma deploy_targets_loop_append:
  "deploy_targets_loop all_modules byname (pre @ ms) s
     = (case deploy_targets_loop all_modules byname pre s of
          (Completed, s') \<Rightarrow> deploy_targets_loop all_modules byname ms s'
        | (outc, s') \<Rightarrow> (outc, s'))"
proof (induction pre arbitrary: s)
  case Nil
  then show ?case by simp
next
  case (Cons p pre)
  show ?case
    by (cases "module_pass all_modules byname p s")
       (auto simp: Cons.IH split: outcome.splits prod.splits)
qed


text \<open>
  C7. If the \<open>dependsOn\<close> list of a module names a module that is not among the module
  names of the run, the pass of that module ends in the early \<open>return\<close> of
  \<open>deploy_targets\<close> with the file sink as it was when the pass began: neither the provider
  text nor the module text of this pass is written. The run ends there, so the module is
  not tried again and no later module is processed; what the sink holds at the end is what
  the passes of the earlier modules wrote.
\<close>

theorem deploy_targets_unknown_dependency:
  assumes "d \<in> set (mod_dependsOn m)" and "d \<notin> set all_modules"
  shows "fst (module_pass all_modules byname m s) = Returned
       \<and> written (snd (module_pass all_modules byname m s)) = written s
       \<and> deploy_targets_loop all_modules byname (m # rest) s
           = module_pass all_modules byname m s
       \<and> (fst (deploy_targets_loop all_modules byname pre s0) = Completed \<longrightarrow>
            fst (deploy_targets_loop all_modules byname (pre @ m # rest) s0) = Returned
            \<and> written (snd (deploy_targets_loop all_modules byname (pre @ m # rest) s0))
                = written (snd (deploy_targets_loop all_modules byname pre s0)))"
proof -
  note pass = module_pass_unknown_dependency [OF assms, of byname]
  have stop: "deploy_targets_loop all_modules byname (m # rest) s
           = module_pass all_modules byname m s" for s
    by (rule deploy_targets_loop_stops) (simp add: pass(1))
  have run: "fst (deploy_targets_loop all_modules byname (pre @ m # rest) s0) = Returned
            \<and> written (snd (deploy_targets_loop all_modules byname (pre @ m # rest) s0))
                = written (snd (deploy_targets_loop all_modules byname pre s0))"
    if completed: "fst (deploy_targets_loop all_modules byname pre s0) = Completed"
  proof -
    obtain s1 where "deploy_targets_loop all_modules byname pre s0 = (Completed, s1)"
      using completed by (cases "deploy_targets_loop all_modules byname pre s0") auto
    then show ?thesis
      by (simp add: deploy_targets_loop_append stop pass del: deploy_targets_loop.simps)
  qed
  from pass stop run show ?thesis by blast
qed

theorem deploy_targets_unknown_dependency_witness:
  "''baseline'' \<in> set (mod_dependsOn example_logging)
   \<and> ''baseline'' \<notin> set [''logging'']
   \<and> fst (module_pass [''logging''] [] example_logging
            \<lparr>shared_tree = example_org, ALL_REGIONS = [], written = []\<rparr>) = Returned
   \<and> written (snd (module_pass [''logging''] [] example_logging
            \<lparr>shared_tree = example_org, ALL_REGIONS = [], written = []\<rparr>)) = []
   \<and> fst (deploy_targets_loop [''logging''] [] ([] @ example_logging # [])
            \<lparr>shared_tree = example_org, ALL_REGIONS = [], written = []\<rparr>) = Returned"
  using deploy_targets_unknown_dependency
    [of "''baseline''" example_logging "[''logging'']" "[]"
        "\<lparr>shared_tree = example_org, ALL_REGIONS = [], written = []\<rparr>" "[]" "[]"
        "\<lparr>shared_tree = example_org, ALL_REGIONS = [], written = []\<rparr>"]
  by (simp add: example_logging_def del: deploy_targets_loop.simps)


text \<open>
  C1: the code does not keep the isolation the claim describes. In the run of
  \<open>baseline\<close> (which excludes \<open>Audit\<close>) followed by \<open>logging\<close> (which targets \<open>Audit\<close> and
  excludes nothing), the exclusion of the first pass is applied to the shared tree: at the
  end the shared tree has lost the audit account, and the module text written for
  \<open>logging\<close> is empty. Without the exclusion in \<open>baseline\<close>, the same run writes a block
  for the audit account.
\<close>

theorem deploy_targets_exclusion_leaks:
  "shared_tree (snd (deploy_targets example_org [example_baseline, example_logging] [] []))
     = [(''root'', [\<lparr>acct_Name = ''Management'', acct_Id = ''123456789012''\<rparr>]),
        (''Security'', [])]
   \<and> shared_tree (snd (deploy_targets example_org [example_baseline, example_logging] [] []))
     \<noteq> example_org
   \<and> map_of (written (snd (deploy_targets example_org
         [example_baseline, example_logging] [] []))) ''terraform/logging.tf'' = Some []
   \<and> mod_deploymentTargets example_logging = [(''accounts'', [''Audit''])]
   \<and> map_of (written (snd (deploy_targets example_org
         [example_baseline\<lparr>mod_deploymentTargets := [(''accounts'', [''Management''])]\<rparr>,
          example_logging] [] []))) ''terraform/logging.tf''
     = Some (''module '' @ dq @ ''logging-eu-west-2-audit'' @ dq @ '' {'' @ nl
               @ ''  source = '' @ dq @ ''./modules/logging'' @ dq @ nl
               @ ''  providers = {'' @ nl
               @ ''    aws = aws.eu-west-2-audit'' @ nl
               @ ''    }'' @ nl
               @ ''  depends_on = [ module.baseline-eu-west-2 ]'' @ nl
               @ ''}'' @ nl @ nl)"
  by (simp add: example_defs run_defs lower_def lower_char_def)

section \<open>The value formatter\<close>

text \<open>
  C6: the code does not render every list of scalars. An integer is returned as an \<open>int\<close>,
  which the f-strings of the dict branch, of the nested-list branch and of
  \<open>create_module_code\<close> render as a bare numeral, but the flat-list branch passes the results
  to \<open>str.join\<close>, which raises \<open>TypeError\<close> on an \<open>int\<close>. So a list of integers, a list
  of scalars, is not rendered at all, while the same integer inside a dict or beside a nested
  list is; lists of strings and booleans are rendered on one line.
\<close>

theorem format_value_flat_int_list:
  "format_value (VList [VInt 80, VInt 443]) 0 = Inl TypeError_JoinNonStr
   \<and> format_value (VInt 80) 0 = Inr (RInt 80)
   \<and> fstr (RInt 80) = ''80''
   \<and> format_value (VDict [(''ports'', VInt 80)]) 0
       = Inr (RStr (''{'' @ nl @ ''    ports = 80'' @ nl @ ''  }''))
   \<and> format_value (VList [VInt 80, VList []]) 0
       = Inr (RStr (''['' @ nl @ ''    80,'' @ nl @ ''    []'' @ nl @ ''  ]''))
   \<and> format_value (VList [VStr ''a'', VBool True, VStr ''module.x.id'']) 0
       = Inr (RStr (''['' @ dq @ ''a'' @ dq @ '', true, module.x.id]''))"
  by (simp add: str_int_def str_nat.simps indent_space_def)

section \<open>When the formatter returns\<close>

lemma sequence_Inr_iff:
  "sequence (map f xs) = Inr rs \<longleftrightarrow> list_all2 (\<lambda>x r. f x = Inr r) xs rs"
proof (induction xs arbitrary: rs)
  case Nil
  then show ?case by auto
next
  case (Cons x xs)
  show ?case
  proof (cases "f x")
    case (Inl e)
    then show ?thesis by (auto simp: list_all2_Cons1)
  next
    case (Inr r)
    then show ?thesis
      by (cases rs) (auto simp: Cons.IH [symmetric] split: sum.splits)
  qed
qed

lemma sequence_Inr_ex:
  "(\<exists>rs. sequence (map f xs) = Inr rs) \<longleftrightarrow> (\<forall>x \<in> set xs. \<exists>r. f x = Inr r)"
proof (induction xs)
  case Nil
  then show ?case by simp
next
  case (Cons x xs)
  show ?case
  proof (cases "f x")
    case (Inl e)
    then show ?thesis by simp
  next
    case (Inr r)
    with Cons.IH show ?thesis by (auto split: sum.splits)
  qed
qed

lemma scalar_rendered:
  "\<not> is_container v \<Longrightarrow> format_value v indent = Inr r \<Longrightarrow> is_RStr r \<longleftrightarrow> \<not> is_VInt v"
  by (cases v) (auto split: if_splits)

lemma list_all2_transfer_pred:
  "list_all2 P xs rs \<Longrightarrow> (\<And>x r. x \<in> set xs \<Longrightarrow> P x r \<Longrightarrow> Q r \<longleftrightarrow> R x) \<Longrightarrow>
   list_all Q rs \<longleftrightarrow> (\<forall>x \<in> set xs. R x)"
  by (induction xs rs rule: list_all2_induct) auto

lemma format_value_list_flat:
  assumes flat: "\<forall>v \<in> set vs. \<not> is_container v"
  shows "(\<exists>r. format_value (VList vs) indent = Inr r)
     \<longleftrightarrow> (\<forall>v \<in> set vs. \<exists>r. format_value v (indent + 1) = Inr r) \<and> (\<forall>v \<in> set vs. \<not> is_VInt v)"
proof (cases "sequence (map (\<lambda>v. format_value v (indent + 1)) vs)")
  case (Inl e)
  then have "\<not> (\<exists>rs. sequence (map (\<lambda>v. format_value v (indent + 1)) vs) = Inr rs)" by simp
  then have "\<not> (\<forall>v \<in> set vs. \<exists>r. format_value v (indent + 1) = Inr r)"
    using sequence_Inr_ex [of "\<lambda>v. format_value v (indent + 1)" vs] by blast
  with Inl flat show ?thesis by (simp add: list_all_iff)
next
  case (Inr rs)
  then have all: "list_all2 (\<lambda>v r. format_value v (indent + 1) = Inr r) vs rs"
    by (simp add: sequence_Inr_iff)
  have ex: "\<forall>v \<in> set vs. \<exists>r. format_value v (indent + 1) = Inr r"
    using Inr sequence_Inr_ex [of "\<lambda>v. format_value v (indent + 1)" vs] by blast
  have "list_all is_RStr rs \<longleftrightarrow> (\<forall>v \<in> set vs. \<not> is_VInt v)"
    using all
  proof (rule list_all2_transfer_pred)
    fix v r assume "v \<in> set vs" and "format_value v (indent + 1) = Inr r"
    with flat show "is_RStr r \<longleftrightarrow> \<not> is_VInt v" by (simp add: scalar_rendered)
  qed
  with Inr flat ex show ?thesis by (simp add: list_all_iff)
qed

lemma format_value_list_nested:
  assumes "\<not> (\<forall>v \<in> set vs. \<not> is_container v)"
  shows "(\<exists>r. format_value (VList vs) indent = Inr r)
     \<longleftrightarrow> (\<forall>v \<in> set vs. \<exists>r. format_value v (indent + 1) = Inr r)"
proof -
  have "(\<exists>r. format_value (VList vs) indent = Inr r)
      \<longleftrightarrow> (\<exists>rs. sequence (map (\<lambda>v. format_value v (indent + 1)) vs) = Inr rs)"
    using assms by (auto simp: list_all_iff split: sum.splits)
  then show ?thesis
    using sequence_Inr_ex [of "\<lambda>v. format_value v (indent + 1)" vs] by blast
qed

lemma format_value_dict:
  "(\<exists>r. format_value (VDict kvs) indent = Inr r)
     \<longleftrightarrow> (\<forall>kv \<in> set kvs. \<exists>r. format_value (snd kv) (indent + 1) = Inr r)"
proof -
  have "(\<exists>r. format_value (VDict kvs) indent = Inr r)
      \<longleftrightarrow> (\<exists>rs. sequence (map (\<lambda>kv. format_value (snd kv) (indent + 1)) kvs) = Inr rs)"
    by (auto split: sum.splits)
  then show ?thesis
    using sequence_Inr_ex [of "\<lambda>kv. format_value (snd kv) (indent + 1)" kvs] by blast
qed

text \<open>
  \<open>format_value\<close> returns a result exactly on the formattable values: those that hold no
  value of an unsupported kind anywhere and no list of scalars with an integer element.
  On every other value it raises \<open>TypeError\<close>. The indent plays no part in this.
\<close>

theorem format_value_returns_iff:
  "(\<exists>r. format_value v indent = Inr r) \<longleftrightarrow> formattable v"
proof (induction v indent rule: format_value.induct)
  case (4 vs indent)
  have IH: "(\<exists>r. format_value v (indent + 1) = Inr r) \<longleftrightarrow> formattable v" if "v \<in> set vs" for v
    using "4.IH"(1) [OF _ that] "4.IH"(2) [OF _ that]
    by (cases "list_all (\<lambda>v. \<not> is_container v) vs") auto
  show ?case
  proof (cases "\<forall>v \<in> set vs. \<not> is_container v")
    case True
    show ?thesis
      unfolding format_value_list_flat [OF True] using IH True by auto
  next
    case False
    show ?thesis
      unfolding format_value_list_nested [OF False] using IH False by auto
  qed
next
  case (5 kvs indent)
  have IH: "(\<exists>r. format_value (snd kv) (indent + 1) = Inr r) \<longleftrightarrow> formattable (snd kv)"
    if "kv \<in> set kvs" for kv
    using "5.IH" [OF that] .
  show ?case
    unfolding format_value_dict using IH by auto
qed simp_all

theorem format_value_returns_iff_witness:
  "formattable (VDict [(''ports'', VList [VInt 80, VList []]), (''name'', VStr ''x'')])
   \<and> (\<exists>r. format_value (VDict [(''ports'', VList [VInt 80, VList []]), (''name'', VStr ''x'')]) 0
            = Inr r)
   \<and> \<not> formattable (VDict [(''ports'', VList [VInt 80, VInt 443])])
   \<and> \<not> (\<exists>r. format_value (VDict [(''ports'', VList [VInt 80, VInt 443])]) 0 = Inr r)"
  using format_value_returns_iff
    [of "VDict [(''ports'', VList [VInt 80, VList []]), (''name'', VStr ''x'')]" 0]
    format_value_returns_iff [of "VDict [(''ports'', VList [VInt 80, VInt 443])]" 0]
  by simp

section \<open>Further properties of the resolver\<close>

lemma excluded_entry_idem:
  "excluded_entry ex (excluded_entry ex p) = excluded_entry ex p"
  by (simp add: excluded_entry_def)

text \<open>
  Exclusion filtering is idempotent: filtering a well-formed tree twice with the same
  exclusion list gives the same tree as filtering it once.
\<close>

theorem filter_excluded_accounts_idempotent:
  assumes "distinct (map fst t)"
  shows "filter_excluded_accounts (filter_excluded_accounts t ex) ex
           = filter_excluded_accounts t ex"
proof -
  have once: "filter_excluded_accounts t ex = map (excluded_entry ex) t"
    by (rule filter_excluded_accounts_map [OF assms])
  have keys: "map fst (map (excluded_entry ex) t) = map fst t"
    by (simp add: excluded_entry_def)
  have "distinct (map fst (map (excluded_entry ex) t))"
    unfolding keys by (rule assms)
  then have "filter_excluded_accounts (map (excluded_entry ex) t) ex
               = map (excluded_entry ex) (map (excluded_entry ex) t)"
    by (rule filter_excluded_accounts_map)
  then show ?thesis
    by (simp add: once excluded_entry_idem)
qed

theorem filter_excluded_accounts_idempotent_witness:
  "distinct (map fst example_org)
   \<and> filter_excluded_accounts (filter_excluded_accounts example_org [''Audit'', ''root'']) [''Audit'', ''root'']
       = [(''root'', []), (''Security'', [])]"
  using filter_excluded_accounts_idempotent [of example_org "[''Audit'', ''root'']"]
  by (simp add: example_org_def filter_excluded_accounts_def)

lemma account_ids_from_ou_loop_returns_iff:
  "(\<exists>r. account_ids_from_ou_loop paths t acc = Inr r) \<longleftrightarrow> set paths \<subseteq> fst ` set t"
proof (induction paths arbitrary: acc)
  case Nil
  then show ?case by simp
next
  case (Cons p paths)
  show ?case
  proof (cases "map_of t p")
    case None
    then have "p \<notin> fst ` set t" by (simp add: map_of_eq_None_iff)
    with None show ?thesis by simp
  next
    case (Some accs)
    then have "p \<in> fst ` set t" by (metis map_of_eq_None_iff option.distinct(1))
    with Some Cons.IH show ?thesis by simp
  qed
qed

text \<open>
  \<open>account_ids_from_ou\<close> returns a mapping exactly when every requested OU path is a key of
  the tree.
\<close>

theorem account_ids_from_ou_returns_iff:
  "(\<exists>r. account_ids_from_ou paths t = Inr r) \<longleftrightarrow> set paths \<subseteq> fst ` set t"
  unfolding account_ids_from_ou_def by (rule account_ids_from_ou_loop_returns_iff)

theorem account_ids_from_ou_returns_iff_witness:
  "set [''Security''] \<subseteq> fst ` set example_org
   \<and> (\<exists>r. account_ids_from_ou [''Security''] example_org = Inr r)
   \<and> \<not> set [''Security'', ''Workloads''] \<subseteq> fst ` set example_org
   \<and> \<not> (\<exists>r. account_ids_from_ou [''Security'', ''Workloads''] example_org = Inr r)"
  using account_ids_from_ou_returns_iff [of "[''Security'']" example_org]
    account_ids_from_ou_returns_iff [of "[''Security'', ''Workloads'']" example_org]
  by (simp add: example_org_def)

section \<open>Module generation and formatter exceptions\<close>

text \<open>
  The claim as stated, blocks for every variable list, fails: a variable whose value is of
  an unsupported kind (\<open>None\<close> in the YAML file) makes \<open>format_value\<close> raise, and
  \<open>create_module_code\<close> then emits no block and writes no file although there is a
  (region, account) pair. The same happens for a list of integers, through the
  \<open>str.join\<close> of the flat-list branch.
\<close>

theorem create_module_code_blocks_counterexample:
  "create_module_code ''net'' ''github.com/x/net'' [(''Audit'', ''555555555555'')]
       [''eu-west-2''] [(''size'', VOther)] [] [] = Inl TypeError_Unsupported
   \<and> create_module_code ''net'' ''github.com/x/net'' [(''Audit'', ''555555555555'')]
       [''eu-west-2''] [(''ports'', VList [VInt 80, VInt 443])] [] [] = Inl TypeError_JoinNonStr"
  by (simp add: create_module_code_def Let_def)

section \<open>The provider text of a module pass\<close>




lemma module_pass_returned_written:
  assumes "fst (module_pass all_modules byname m s) = Returned"
  shows "written (snd (module_pass all_modules byname m s)) = written s"
  using assms
  by (auto simp: module_pass_def Let_def create_provider_code_def create_module_code_def
        write_to_file_def split: prod.splits sum.splits if_splits)








end
